theory Spec2Isabelle
  imports Complex_Main "HOL-Library.Word"
begin

section \<open>Display geometry and conversion constants\<close>

text \<open>
  The constants of \<^verbatim>\<open>screenshot.cpp\<close>: the TXT 4.0 display is 240 by 320 pixels, the
  counter buffer of the file-name generator holds 10 characters, and the colour
  conversion rescales 5-bit and 6-bit channels to 8 bits.
\<close>

definition WIDTH :: nat where
  "WIDTH = 240"

definition HEIGHT :: nat where
  "HEIGHT = 320"

definition COUNTER_STR_SIZE :: nat where
  "COUNTER_STR_SIZE = 10"

definition RED_MAX :: int where
  "RED_MAX = 31"

definition GREEN_MAX :: int where
  "GREEN_MAX = 63"

definition BLUE_MAX :: int where
  "BLUE_MAX = 31"

definition COLOR_MAX :: int where
  "COLOR_MAX = 255"

section \<open>Pixels\<close>

text \<open>
  \<^verbatim>\<open>struct RGB565\<close> declares three bit-fields of 5, 6 and 5 bits, in the order blue,
  green, red; \<^verbatim>\<open>struct RGB888\<close> holds three \<^verbatim>\<open>unsigned char\<close>. A bit-field of
  width w is a w-bit word. Where the compiler puts the three fields inside the 16-bit
  unit is not part of the record.
\<close>

record RGB565 =
  blue :: "5 word"
  green :: "6 word"
  red :: "5 word"

record RGB888 =
  red :: "8 word"
  green :: "8 word"
  blue :: "8 word"

section \<open>Colour conversion\<close>

text \<open>
  The operator \<^verbatim>\<open>/\<close> of C++ on \<^verbatim>\<open>int\<close> truncates towards zero, whereas \<open>div\<close> of HOL
  rounds down.
\<close>

definition quot :: "int \<Rightarrow> int \<Rightarrow> int" where
  "quot a b = sgn a * sgn b * (\<bar>a\<bar> div \<bar>b\<bar>)"

text \<open>
  The body of the loop of \<^verbatim>\<open>convertRgb565ToRgb888\<close>. A bit-field operand is promoted to
  \<^verbatim>\<open>int\<close>, the arithmetic is made on \<^verbatim>\<open>int\<close>, and the assignment to an
  \<^verbatim>\<open>unsigned char\<close> keeps the low 8 bits.
\<close>

definition convert_pixel :: "RGB565 \<Rightarrow> RGB888" where
  "convert_pixel p =
     \<lparr>RGB888.red = word_of_int (quot (uint (RGB565.red p) * COLOR_MAX) RED_MAX),
      green = word_of_int (quot (uint (RGB565.green p) * COLOR_MAX) GREEN_MAX),
      blue = word_of_int (quot (uint (RGB565.blue p) * COLOR_MAX) BLUE_MAX)\<rparr>"

text \<open>
  The loop itself: \<^verbatim>\<open>for (size_t i = 0; i < WIDTH * HEIGHT; ++i)\<close>, writing element
  \<open>i\<close> of the output vector from element \<open>i\<close> of the input vector.
\<close>

function convert_loop :: "RGB565 list \<Rightarrow> nat \<Rightarrow> RGB888 list \<Rightarrow> RGB888 list" where
  "convert_loop buffer565 i buffer888 =
     (if i < WIDTH * HEIGHT
      then convert_loop buffer565 (Suc i) (buffer888[i := convert_pixel (buffer565 ! i)])
      else buffer888)"
  by pat_completeness auto
termination
  by (relation "measure (\<lambda>(b, i, r). WIDTH * HEIGHT - i)") auto

text \<open>
  The output vector is created with \<open>WIDTH * HEIGHT\<close> value-initialised elements. The
  caller passes a vector of the same size; the source does not check it.
\<close>

definition convertRgb565ToRgb888 :: "RGB565 list \<Rightarrow> RGB888 list" where
  "convertRgb565ToRgb888 buffer565 =
     convert_loop buffer565 0
       (replicate (WIDTH * HEIGHT) \<lparr>RGB888.red = 0, green = 0, blue = 0\<rparr>)"

section \<open>Strings and the file system\<close>

text \<open>
  A \<^verbatim>\<open>std::string\<close> is a list of characters. Where the source hands a string to a C
  function (\<^verbatim>\<open>filePath.c_str()\<close>, \<^verbatim>\<open>dateStr.data()\<close>), the callee reads up to the first
  NUL character.
\<close>

definition c_str :: "string \<Rightarrow> string" where
  "c_str s = takeWhile (\<lambda>c. c \<noteq> CHR 0x00) s"

text \<open>\<^verbatim>\<open>std::string::resize\<close>: cut to \<open>n\<close> characters, or pad with NUL characters.\<close>

definition resize :: "nat \<Rightarrow> string \<Rightarrow> string" where
  "resize n s = take n s @ replicate (n - length s) (CHR 0x00)"

text \<open>
  \<^verbatim>\<open>fileExists\<close> returns whether \<^verbatim>\<open>stat\<close> succeeds. The file system is the set of
  paths on which it does, as a predicate.
\<close>

type_synonym filesystem = "string \<Rightarrow> bool"

definition fileExists :: "filesystem \<Rightarrow> string \<Rightarrow> bool" where
  "fileExists fs path = fs path"

section \<open>Rendering the counter\<close>

text \<open>
  \<^verbatim>\<open>std::to_chars(first, last, value)\<close> of the C++ standard library writes \<open>value\<close> in
  decimal, with a leading minus sign when it is negative and without leading zeros, and
  reports \<^verbatim>\<open>value_too_large\<close> (here \<open>None\<close>) when the text does not fit between
  \<open>first\<close> and \<open>last\<close>.
\<close>

definition digit_char :: "nat \<Rightarrow> char" where
  "digit_char d = ''0123456789'' ! d"

fun digits :: "nat \<Rightarrow> string" where
  "digits n = (if n < 10 then [digit_char n] else digits (n div 10) @ [digit_char (n mod 10)])"

definition decimal :: "int \<Rightarrow> string" where
  "decimal v = (if v < 0 then CHR ''-'' # digits (nat (- v)) else digits (nat v))"

definition to_chars :: "nat \<Rightarrow> int \<Rightarrow> string option" where
  "to_chars n v = (if length (decimal v) \<le> n then Some (decimal v) else None)"

section \<open>The file-name generator\<close>

text \<open>
  \<^verbatim>\<open>generateFileName\<close> either returns a path or throws the \<^verbatim>\<open>std::runtime_error\<close> of
  line 120. Its counter is an \<^verbatim>\<open>int\<close> (32 bits on the controller), and \<^verbatim>\<open>++counter\<close>
  at the largest \<^verbatim>\<open>int\<close> is a signed overflow, which C++ leaves undefined: the model
  stops there with \<open>Signed_overflow\<close>.
\<close>

datatype error = Runtime_error string | Signed_overflow

definition INT_MAX :: int where
  "INT_MAX = 2147483647"

text \<open>
  The \<^verbatim>\<open>while\<close> loop of lines 116 to 130, on the variables \<open>filePath\<close> and \<open>counter\<close>;
  \<open>basePathSize\<close> is constant in it.
\<close>

function name_loop :: "filesystem \<Rightarrow> nat \<Rightarrow> string \<Rightarrow> int \<Rightarrow> error + string" where
  "name_loop fs basePathSize filePath counter =
     (if fileExists fs (c_str filePath)
      then (case to_chars COUNTER_STR_SIZE counter of
              None \<Rightarrow> Inl (Runtime_error ''Failed to convert number to string'')
            | Some counterStr \<Rightarrow>
                if counter < INT_MAX
                then name_loop fs basePathSize
                       (resize basePathSize filePath @ ''-'' @ counterStr @ ''.png'')
                       (counter + 1)
                else Inl Signed_overflow)
      else Inr filePath)"
  by pat_completeness auto
termination
  by (relation "measure (\<lambda>(fs, n, p, counter). nat (INT_MAX - counter))") auto

text \<open>
  \<open>dateStr\<close> is what \<^verbatim>\<open>getDate()\<close> returned: the local time as \<^verbatim>\<open>strftime\<close> rendered it
  into the 20-character array. It is read only when \<open>includeDate\<close> is set. The
  \<^verbatim>\<open>reserve\<close> call changes no value and is left out.
\<close>

definition generateFileName :: "filesystem \<Rightarrow> string \<Rightarrow> string \<Rightarrow> string \<Rightarrow> bool \<Rightarrow> error + string" where
  "generateFileName fs dateStr directory baseName includeDate =
     (let filePath = (if directory \<noteq> [] then directory @ ''/'' else [])
                     @ baseName
                     @ (if includeDate then ''-'' @ c_str dateStr else [])
                     @ ''.png'';
          basePathSize = length filePath - 4
      in name_loop fs basePathSize filePath 1)"

text \<open>
  The paths the generator tries, for comparison with the loop: the path without the
  extension, and candidate number \<open>k\<close>, which is the first path for \<open>k = 0\<close> and carries
  the disambiguator \<open>-k\<close> otherwise.
\<close>

definition stem :: "string \<Rightarrow> string \<Rightarrow> string \<Rightarrow> bool \<Rightarrow> string" where
  "stem dateStr directory baseName includeDate =
     (if directory \<noteq> [] then directory @ ''/'' else [])
     @ baseName
     @ (if includeDate then ''-'' @ c_str dateStr else [])"

definition candidate :: "string \<Rightarrow> nat \<Rightarrow> string" where
  "candidate st k = (if k = 0 then st @ ''.png'' else st @ ''-'' @ digits k @ ''.png'')"

text \<open>
  A directory in which \<^verbatim>\<open>shot.png\<close> and \<^verbatim>\<open>shot-N.png\<close> exist for every \<open>N\<close> from 1 to
  2147483647, and nothing else.
\<close>

definition crowded :: filesystem where
  "crowded path = (path \<in> candidate ''shot'' ` {0 .. 2147483647})"

section \<open>The PNG writer\<close>

text \<open>
  libpng is an external library. What \<^verbatim>\<open>writePng\<close> asks of it is the sequence of its
  calls; a row is the \<open>WIDTH\<close> pixels libpng reads from the pointer
  \<^verbatim>\<open>&buffer[y * WIDTH]\<close> for an image declared \<open>WIDTH\<close> pixels wide with 3 bytes per
  pixel.
\<close>

datatype color_type =
    PNG_COLOR_TYPE_GRAY
  | PNG_COLOR_TYPE_PALETTE
  | PNG_COLOR_TYPE_RGB
  | PNG_COLOR_TYPE_RGB_ALPHA
  | PNG_COLOR_TYPE_GRAY_ALPHA

datatype interlace_type = PNG_INTERLACE_NONE | PNG_INTERLACE_ADAM7

datatype compression_type = PNG_COMPRESSION_TYPE_DEFAULT

datatype filter_type = PNG_FILTER_TYPE_DEFAULT

datatype png_call =
    Png_init_io
  | Png_set_IHDR nat nat nat color_type interlace_type compression_type filter_type
  | Png_write_info
  | Png_write_row "RGB888 list"
  | Png_write_end

text \<open>
  How libpng behaves in one run: whether \<^verbatim>\<open>png_create_write_struct\<close> and
  \<^verbatim>\<open>png_create_info_struct\<close> return an object, and which of the later calls, counted
  from 0, reports an error by jumping back to the \<^verbatim>\<open>setjmp\<close> of line 169 (\<open>None\<close> when
  none does).
\<close>

record libpng =
  write_struct :: bool
  info_struct :: bool
  error_at :: "nat option"

text \<open>
  One libpng call after the calls \<open>made\<close> so far: \<open>Inl\<close> is the jump, with the calls
  that were completed before it.
\<close>

definition png_do :: "libpng \<Rightarrow> png_call \<Rightarrow> png_call list \<Rightarrow> png_call list + png_call list" where
  "png_do lib call made =
     (if error_at lib = Some (length made) then Inl made else Inr (made @ [call]))"

definition and_then ::
  "png_call list + png_call list \<Rightarrow> (png_call list \<Rightarrow> png_call list + png_call list)
    \<Rightarrow> png_call list + png_call list" where
  "and_then r f = (case r of Inl made \<Rightarrow> Inl made | Inr made \<Rightarrow> f made)"

definition row_at :: "RGB888 list \<Rightarrow> nat \<Rightarrow> RGB888 list" where
  "row_at buffer y = map (\<lambda>x. buffer ! x) [y * WIDTH ..< y * WIDTH + WIDTH]"

text \<open>The loop \<^verbatim>\<open>for (auto y = 0U; y < HEIGHT; ++y)\<close> of lines 192 to 194.\<close>

function write_rows ::
  "libpng \<Rightarrow> RGB888 list \<Rightarrow> nat \<Rightarrow> png_call list \<Rightarrow> png_call list + png_call list" where
  "write_rows lib buffer y made =
     (if y < HEIGHT
      then and_then (png_do lib (Png_write_row (row_at buffer y)) made)
             (write_rows lib buffer (Suc y))
      else Inr made)"
  by pat_completeness auto
termination
  by (relation "measure (\<lambda>(lib, buffer, y, made). HEIGHT - y)") auto

text \<open>
  \<^verbatim>\<open>writePng\<close> returns nothing. What it leaves behind is the text it wrote to
  \<^verbatim>\<open>std::cerr\<close>, whether \<^verbatim>\<open>fopen\<close> opened (created or truncated) the file, and the
  libpng calls completed on that file.
\<close>

record png_outcome =
  diagnostic :: string
  opened :: bool
  emitted :: "png_call list"

definition newline :: string where
  "newline = [CHR 0x0A]"

definition writePng :: "(string \<Rightarrow> bool) \<Rightarrow> libpng \<Rightarrow> string \<Rightarrow> RGB888 list \<Rightarrow> png_outcome" where
  "writePng fopen_ok lib filename buffer =
     (if \<not> fopen_ok filename
      then \<lparr>diagnostic = ''Failed to open file for writing'' @ newline,
            opened = False, emitted = []\<rparr>
      else if \<not> write_struct lib
      then \<lparr>diagnostic = ''Failed to create PNG write struct'' @ newline,
            opened = True, emitted = []\<rparr>
      else if \<not> info_struct lib
      then \<lparr>diagnostic = ''Failed to create PNG info struct'' @ newline,
            opened = True, emitted = []\<rparr>
      else
        (case and_then (png_do lib Png_init_io [])
               (\<lambda>made. and_then
                  (png_do lib
                     (Png_set_IHDR WIDTH HEIGHT 8 PNG_COLOR_TYPE_RGB PNG_INTERLACE_NONE
                        PNG_COMPRESSION_TYPE_DEFAULT PNG_FILTER_TYPE_DEFAULT) made)
               (\<lambda>made. and_then (png_do lib Png_write_info made)
               (\<lambda>made. and_then (write_rows lib buffer 0 made)
               (\<lambda>made. png_do lib Png_write_end made)))) of
           Inl made \<Rightarrow>
             \<lparr>diagnostic = ''Failed to set PNG jump buffer'' @ newline,
              opened = True, emitted = made\<rparr>
         | Inr made \<Rightarrow> \<lparr>diagnostic = [], opened = True, emitted = made\<rparr>))"

section \<open>The program\<close>

text \<open>
  What a run of \<^verbatim>\<open>main\<close> meets outside the program: the file system as \<^verbatim>\<open>stat\<close> sees
  it, the local time as \<^verbatim>\<open>getDate\<close> renders it, the bytes \<^verbatim>\<open>/dev/fb0\<close> delivers
  (\<open>None\<close> when the device cannot be opened), the way the compiler lays the bit-fields
  of \<^verbatim>\<open>RGB565\<close> over the two bytes of a pixel, the paths \<^verbatim>\<open>fopen\<close> can open for
  writing, the behaviour of libpng, and the text \<^verbatim>\<open>operator<<\<close> prints for the pointer
  \<^verbatim>\<open>argv\<close>.
\<close>

record env =
  stat_ok :: filesystem
  local_time :: string
  frame_buffer :: "8 word list option"
  layout :: "8 word \<Rightarrow> 8 word \<Rightarrow> RGB565"
  fopen_ok :: "string \<Rightarrow> bool"
  png :: libpng
  argv_text :: string

text \<open>
  \<^verbatim>\<open>getopt_long\<close> is a library function: a command line is given by the results of
  its calls before the one that returns \<open>-1\<close>. A call that finds an option of
  \<^verbatim>\<open>"n:d:xh"\<close> or of the table of long options returns the value of that option and
  sets \<^verbatim>\<open>optarg\<close>. A call that meets an option it does not recognise, or an option
  without its argument, writes a line to the error stream, since the program leaves
  \<^verbatim>\<open>opterr\<close> at 1, and returns the character \<open>?\<close>.
\<close>

datatype getopt_result = Found int string | Complained string

fun shortOpt_of :: "getopt_result \<Rightarrow> int" where
  "shortOpt_of (Found v arg) = v"
| "shortOpt_of (Complained line) = of_char (CHR ''?'')"

fun optarg_of :: "getopt_result \<Rightarrow> string" where
  "optarg_of (Found v arg) = arg"
| "optarg_of (Complained line) = []"

fun complaint_of :: "getopt_result \<Rightarrow> string" where
  "complaint_of (Found v arg) = []"
| "complaint_of (Complained line) = line"

text \<open>What the calls of \<^verbatim>\<open>getopt_long\<close> wrote to the error stream, in order.\<close>

definition getopt_cerr :: "getopt_result list \<Rightarrow> string" where
  "getopt_cerr opts = concat (map complaint_of opts)"

text \<open>The variables the option loop sets, and the loop.\<close>

record settings =
  baseName :: string
  directory :: string
  includeDate :: bool
  showHelp :: bool

fun parse_opts :: "getopt_result list \<Rightarrow> settings \<Rightarrow> settings" where
  "parse_opts [] s = s"
| "parse_opts (r # rest) s =
     parse_opts rest
       (if shortOpt_of r = of_char (CHR ''n'') then s\<lparr>baseName := optarg_of r\<rparr>
        else if shortOpt_of r = of_char (CHR ''d'') then s\<lparr>directory := optarg_of r\<rparr>
        else if shortOpt_of r = of_char (CHR ''x'') then s\<lparr>includeDate := False\<rparr>
        else s\<lparr>showHelp := True\<rparr>)"

definition usage :: "string \<Rightarrow> string" where
  "usage argv =
     ''Usage: '' @ argv @ '' [options]'' @ newline
     @ ''Options:'' @ newline
     @ ''  -n, --name      Base name for the screenshot file (default: screenshot)'' @ newline
     @ ''  -d, --directory Directory to save the screenshot (default: current directory)''
     @ newline
     @ ''  -x, --no-date   Do not include the date in the filename'' @ newline
     @ ''  -h, --help      Show this help message'' @ newline"

text \<open>
  The read of line 260 fills the vector of \<open>WIDTH * HEIGHT\<close> pixels from
  \<open>WIDTH * HEIGHT * 2\<close> bytes, two bytes per pixel.
\<close>

fun as_pixels :: "(8 word \<Rightarrow> 8 word \<Rightarrow> RGB565) \<Rightarrow> 8 word list \<Rightarrow> RGB565 list" where
  "as_pixels f (b0 # b1 # rest) = f b0 b1 # as_pixels f rest"
| "as_pixels f rest = []"

text \<open>
  A run ends by returning from \<^verbatim>\<open>main\<close>, by the exception of \<^verbatim>\<open>generateFileName\<close>
  that nothing catches, or in undefined behaviour. It leaves the text on the output
  stream and on the error stream, and the file \<^verbatim>\<open>fopen\<close> opened, with the libpng calls
  completed on it. The error stream holds what \<^verbatim>\<open>getopt_long\<close> wrote during the option
  loop, followed by what the program wrote to \<^verbatim>\<open>std::cerr\<close>.
\<close>

datatype ending = Returned int | Uncaught string | Undefined

record run =
  ending :: ending
  cout :: string
  cerr :: string
  output_file :: "(string \<times> png_call list) option"

text \<open>The initial values of lines 203 to 207.\<close>

definition initial :: settings where
  "initial = \<lparr>baseName = ''screenshot'', directory = [], includeDate = True, showHelp = False\<rparr>"

definition main :: "env \<Rightarrow> getopt_result list \<Rightarrow> run" where
  "main e opts =
     (let s = parse_opts opts initial
      in if showHelp s
         then \<lparr>ending = Returned 0, cout = usage (argv_text e), cerr = getopt_cerr opts,
               output_file = None\<rparr>
         else
           (case generateFileName (stat_ok e) (local_time e) (directory s) (baseName s)
                   (includeDate s) of
              Inl (Runtime_error msg) \<Rightarrow>
                \<lparr>ending = Uncaught msg, cout = [], cerr = getopt_cerr opts,
                 output_file = None\<rparr>
            | Inl Signed_overflow \<Rightarrow>
                \<lparr>ending = Undefined, cout = [], cerr = getopt_cerr opts, output_file = None\<rparr>
            | Inr outputFile \<Rightarrow>
                (case frame_buffer e of
                   None \<Rightarrow>
                     \<lparr>ending = Returned 1, cout = [],
                      cerr = getopt_cerr opts @ ''Failed to open frame buffer'' @ newline,
                      output_file = None\<rparr>
                 | Some bytes \<Rightarrow>
                     if length bytes < WIDTH * HEIGHT * 2
                     then \<lparr>ending = Returned 1, cout = [],
                           cerr = getopt_cerr opts @ ''Failed to read frame buffer'' @ newline,
                           output_file = None\<rparr>
                     else
                       (let buffer565 = as_pixels (layout e) (take (WIDTH * HEIGHT * 2) bytes);
                            buffer888 = convertRgb565ToRgb888 buffer565;
                            w = writePng (fopen_ok e) (png e) (c_str outputFile) buffer888
                        in \<lparr>ending = Returned 0,
                            cout = ''Screenshot saved as '' @ outputFile @ newline,
                            cerr = getopt_cerr opts @ diagnostic w,
                            output_file = (if opened w then Some (c_str outputFile, emitted w)
                                    else None)\<rparr>))))"

text \<open>
  The line \<^verbatim>\<open>getopt_long\<close> of glibc writes for the option \<^verbatim>\<open>-z\<close> of a program
  started as \<^verbatim>\<open>screenshot\<close>.
\<close>

definition invalid_option_z :: string where
  "invalid_option_z =
     ''screenshot: invalid option -- '' @ [CHR 0x27, CHR ''z'', CHR 0x27, CHR 0x0A]"

section \<open>Concrete runs\<close>

text \<open>
  Inputs for the concrete runs below: a directory holding \<^verbatim>\<open>shot.png\<close> and
  \<^verbatim>\<open>shot-1.png\<close> to \<^verbatim>\<open>shot-9.png\<close>, a black pixel, a libpng that reports no error, and
  an environment with an empty directory, a working libpng and a frame buffer that
  delivers three bytes.
\<close>

definition ten_shots :: filesystem where
  "ten_shots path = (path \<in> set [''shot.png'', ''shot-1.png'', ''shot-2.png'', ''shot-3.png'',
      ''shot-4.png'', ''shot-5.png'', ''shot-6.png'', ''shot-7.png'', ''shot-8.png'',
      ''shot-9.png''])"

definition black :: RGB888 where
  "black = \<lparr>RGB888.red = 0, green = 0, blue = 0\<rparr>"

definition working_png :: libpng where
  "working_png = \<lparr>write_struct = True, info_struct = True, error_at = None\<rparr>"

definition some_env :: env where
  "some_env = \<lparr>stat_ok = (\<lambda>path. False), local_time = ''2024-07-26-12-00-00'',
      frame_buffer = Some [1, 2, 3],
      layout = (\<lambda>b0 b1. \<lparr>RGB565.blue = 0, green = 0, red = 0\<rparr>),
      fopen_ok = (\<lambda>path. True), png = working_png, argv_text = ''0x7ffd3c5a''\<rparr>"

section \<open>Properties of the colour conversion\<close>

declare convert_loop.simps [simp del]

lemma convert_loop_length: "length (convert_loop b i r) = length r"
  by (induction b i r rule: convert_loop.induct) (subst convert_loop.simps, simp)

lemma convert_loop_nth:
  "k < length r \<Longrightarrow> convert_loop b i r ! k =
     (if i \<le> k \<and> k < WIDTH * HEIGHT then convert_pixel (b ! k) else r ! k)"
proof (induction b i r rule: convert_loop.induct)
  case (1 b i r)
  show ?case
  proof (cases "i < WIDTH * HEIGHT")
    case True
    let ?r = "r[i := convert_pixel (b ! i)]"
    have step: "convert_loop b i r = convert_loop b (Suc i) ?r"
      using True by (subst convert_loop.simps) simp
    have ih: "convert_loop b (Suc i) ?r ! k =
        (if Suc i \<le> k \<and> k < WIDTH * HEIGHT then convert_pixel (b ! k) else ?r ! k)"
      using "1.IH" [OF True] "1.prems" by simp
    show ?thesis
    proof (cases "k = i")
      case True
      with \<open>i < WIDTH * HEIGHT\<close> "1.prems" ih show ?thesis unfolding step by simp
    next
      case False
      then have "Suc i \<le> k \<longleftrightarrow> i \<le> k" by auto
      with False ih show ?thesis unfolding step by simp
    qed
  next
    case False
    then have "\<not> (i \<le> k \<and> k < WIDTH * HEIGHT)"
      by (auto dest: le_less_trans)
    with False show ?thesis by (subst convert_loop.simps) auto
  qed
qed

lemma quot_nonneg: "0 \<le> a \<Longrightarrow> 0 < b \<Longrightarrow> quot a b = a div b"
  by (cases "a = 0") (simp_all add: quot_def)

lemma rescale_fits:
  assumes "0 \<le> v" "v \<le> m" "0 < m"
  shows "0 \<le> v * 255 div m \<and> v * 255 div m \<le> (255::int)"
proof -
  have "v * 255 \<le> m * 255" using assms by simp
  then have "v * 255 div m \<le> m * 255 div m" by (rule zdiv_mono1) (use assms in simp)
  moreover have "m * 255 div m = 255" using assms by simp
  moreover have "0 \<le> v * 255 div m" using assms by (simp add: pos_imp_zdiv_nonneg_iff)
  ultimately show ?thesis by simp
qed

lemma narrow_rescale:
  assumes "0 \<le> v" "v \<le> m" "0 < m"
  shows "uint (word_of_int (quot (v * 255) m) :: 8 word) = v * 255 div m"
proof -
  have q: "quot (v * 255) m = v * 255 div m" using assms by (simp add: quot_nonneg)
  have "v * 255 div m < 2 ^ 8" using rescale_fits [OF assms] by simp
  then show ?thesis
    using rescale_fits [OF assms] by (simp add: q uint_word_of_int take_bit_int_eq_self)
qed

lemma uint5: "uint (w :: 5 word) \<le> 31"
  using uint_bounded [of w] by simp
lemma uint6: "uint (w :: 6 word) \<le> 63"
  using uint_bounded [of w] by simp

lemma red_conv: "uint (RGB888.red (convert_pixel p)) = uint (RGB565.red p) * 255 div 31"
  using narrow_rescale [of "uint (RGB565.red p)" 31]
  by (simp add: convert_pixel_def COLOR_MAX_def RED_MAX_def uint5)

lemma green_conv: "uint (RGB888.green (convert_pixel p)) = uint (RGB565.green p) * 255 div 63"
  using narrow_rescale [of "uint (RGB565.green p)" 63]
  by (simp add: convert_pixel_def COLOR_MAX_def GREEN_MAX_def uint6)

lemma blue_conv: "uint (RGB888.blue (convert_pixel p)) = uint (RGB565.blue p) * 255 div 31"
  using narrow_rescale [of "uint (RGB565.blue p)" 31]
  by (simp add: convert_pixel_def COLOR_MAX_def BLUE_MAX_def uint5)

lemma convert_nth:
  "i < WIDTH * HEIGHT \<Longrightarrow> convertRgb565ToRgb888 b ! i = convert_pixel (b ! i)"
  by (simp add: convertRgb565ToRgb888_def convert_loop_nth)

lemma convert_length: "length (convertRgb565ToRgb888 b) = WIDTH * HEIGHT"
  by (simp add: convertRgb565ToRgb888_def convert_loop_length)

lemma floor_rescale: "\<lfloor>(real_of_int v * 255 / real_of_int m)\<rfloor> = v * 255 div m"
  using floor_divide_of_int_eq [of "v * 255" m, where ?'a = real] by simp

section \<open>Properties of the file-name generator\<close>

declare name_loop.simps [simp del]
declare digits.simps [simp del]

lemma length_digits: "n < 10 ^ k \<Longrightarrow> 0 < k \<Longrightarrow> length (digits n) \<le> k"
proof (induction n arbitrary: k rule: digits.induct)
  case (1 n)
  show ?case
  proof (cases "n < 10")
    case True
    with 1 show ?thesis by (subst digits.simps) simp
  next
    case False
    then obtain k' where k: "k = Suc k'" using "1.prems" by (cases k) auto
    have "k' \<noteq> 0" using False "1.prems" k by (cases k') auto
    moreover have "n div 10 < 10 ^ k'" using "1.prems" k
      by (simp add: less_mult_imp_div_less mult.commute)
    ultimately have "length (digits (n div 10)) \<le> k'"
      using "1.IH" [OF False] by simp
    with False k show ?thesis by (subst digits.simps) simp
  qed
qed

lemma to_chars_positive:
  assumes "0 \<le> v" "v \<le> INT_MAX"
  shows "to_chars COUNTER_STR_SIZE v = Some (digits (nat v))"
proof -
  have "nat v < 10 ^ 10" using assms by (simp add: INT_MAX_def)
  then have "length (digits (nat v)) \<le> 10" by (rule length_digits) simp
  with assms show ?thesis by (simp add: to_chars_def decimal_def COUNTER_STR_SIZE_def)
qed

lemma resize_candidate: "resize (length st) (candidate st k) = st"
  by (simp add: resize_def candidate_def)

lemma name_loop_free:
  "\<not> fileExists fs (c_str p) \<Longrightarrow> name_loop fs n p c = Inr p"
  by (subst name_loop.simps) simp

lemma name_loop_step:
  assumes "fileExists fs (c_str (candidate st m))" "Suc m < 2147483647"
  shows "name_loop fs (length st) (candidate st m) (int m + 1) =
         name_loop fs (length st) (candidate st (Suc m)) (int (Suc m) + 1)"
proof -
  have "to_chars COUNTER_STR_SIZE (int m + 1) = Some (digits (Suc m))"
    using to_chars_positive [of "int m + 1"] assms(2) by (simp add: INT_MAX_def nat_add_distrib)
  moreover have "int m + 1 < INT_MAX" using assms(2) by (simp add: INT_MAX_def)
  ultimately show ?thesis
    using assms(1)
    by (subst name_loop.simps) (simp add: resize_candidate add.commute, simp add: candidate_def)
qed

lemma name_loop_finds:
  assumes "m \<le> k" "k < 2147483647"
    and "\<forall>j. m \<le> j \<and> j < k \<longrightarrow> fileExists fs (c_str (candidate st j))"
    and "\<not> fileExists fs (c_str (candidate st k))"
  shows "name_loop fs (length st) (candidate st m) (int m + 1) = Inr (candidate st k)"
  using assms
proof (induction "k - m" arbitrary: m)
  case 0
  then have "m = k" by simp
  with 0 show ?case by (simp add: name_loop_free)
next
  case (Suc d)
  then have lt: "m < k" by simp
  with Suc.prems have ex: "fileExists fs (c_str (candidate st m))" by simp
  have "name_loop fs (length st) (candidate st (Suc m)) (int (Suc m) + 1) = Inr (candidate st k)"
    using Suc.hyps Suc.prems lt by (intro Suc.hyps(1)) auto
  moreover have "Suc m < 2147483647" using lt Suc.prems(2) by simp
  ultimately show ?case using name_loop_step [OF ex] by simp
qed

lemma name_loop_overflow:
  assumes "m < 2147483647"
    and "\<forall>j. m \<le> j \<and> j < 2147483647 \<longrightarrow> fileExists fs (c_str (candidate st j))"
  shows "name_loop fs (length st) (candidate st m) (int m + 1) = Inl Signed_overflow"
  using assms
proof (induction "2147483646 - m" arbitrary: m)
  case 0
  then have m: "m = 2147483646" by simp
  have "to_chars COUNTER_STR_SIZE (int m + 1) = Some (digits (Suc m))"
    using to_chars_positive [of "int m + 1"] m by (simp add: INT_MAX_def nat_add_distrib)
  moreover have "\<not> int m + 1 < INT_MAX" using m by (simp add: INT_MAX_def)
  moreover have "fileExists fs (c_str (candidate st m))" using 0 m by simp
  ultimately show ?case by (subst name_loop.simps) simp
next
  case (Suc d)
  then have lt: "Suc m < 2147483647" by simp
  have ex: "fileExists fs (c_str (candidate st m))" using Suc.prems by simp
  have "name_loop fs (length st) (candidate st (Suc m)) (int (Suc m) + 1) = Inl Signed_overflow"
    using Suc.hyps Suc.prems lt by (intro Suc.hyps(1)) auto
  then show ?case using name_loop_step [OF ex lt] by simp
qed

lemma generateFileName_loop:
  "generateFileName fs dateStr dir base dated =
     name_loop fs (length (stem dateStr dir base dated))
       (candidate (stem dateStr dir base dated) 0) (int 0 + 1)"
  by (simp add: generateFileName_def stem_def candidate_def Let_def)

lemma digit_char_in: "d < 10 \<Longrightarrow> digit_char d \<in> set ''0123456789''"
  unfolding digit_char_def by (rule nth_mem) simp

lemma digits_chars: "set (digits n) \<subseteq> set ''0123456789''"
proof (induction n rule: digits.induct)
  case (1 n)
  show ?case
  proof (cases "n < 10")
    case True
    then show ?thesis using digit_char_in [of n] by (subst digits.simps) simp
  next
    case False
    have "digit_char (n mod 10) \<in> set ''0123456789''" by (rule digit_char_in) simp
    with False "1.IH" show ?thesis by (subst digits.simps) simp
  qed
qed

lemma c_str_no_nul: "CHR 0x00 \<notin> set s \<Longrightarrow> c_str s = s"
  by (auto simp: c_str_def takeWhile_eq_all_conv)

lemma c_str_shot: "c_str (candidate ''shot'' k) = candidate ''shot'' k"
proof (rule c_str_no_nul)
  have "CHR 0x00 \<notin> set (digits k)" using digits_chars [of k] by auto
  then show "CHR 0x00 \<notin> set (candidate ''shot'' k)" by (simp add: candidate_def)
qed

lemma below_ten: "j < 10 \<Longrightarrow> j \<in> {0, 1, 2, 3, 4, 5, 6, 7, 8, 9::nat}"
  by auto


section \<open>Properties of the PNG writer and of the program\<close>

declare write_rows.simps [simp del]

lemma write_rows_all:
  "error_at lib = None \<Longrightarrow>
   write_rows lib buffer y made =
     Inr (made @ map (\<lambda>y. Png_write_row (row_at buffer y)) [y ..< HEIGHT])"
proof (induction lib buffer y made rule: write_rows.induct)
  case (1 lib buffer y made)
  show ?case
  proof (cases "y < HEIGHT")
    case True
    then have "[y ..< HEIGHT] = y # [Suc y ..< HEIGHT]" by (simp add: upt_conv_Cons)
    with True 1 show ?thesis
      by (subst write_rows.simps) (simp add: and_then_def png_do_def)
  next
    case False
    then show ?thesis by (subst write_rows.simps) simp
  qed
qed

lemma map_nth_take_drop:
  "a + n \<le> length xs \<Longrightarrow> map (\<lambda>x. xs ! x) [a ..< a + n] = take n (drop a xs)"
  by (rule nth_equalityI) (auto simp: add.commute)

lemma row_fits:
  assumes "y < HEIGHT" "length buffer = WIDTH * HEIGHT"
  shows "y * WIDTH + WIDTH \<le> length buffer"
proof -
  have "Suc y * WIDTH \<le> HEIGHT * WIDTH" using assms(1) by (intro mult_le_mono1) simp
  then show ?thesis using assms(2) by (simp add: mult.commute)
qed

lemma row_at_take_drop:
  "y < HEIGHT \<Longrightarrow> length buffer = WIDTH * HEIGHT \<Longrightarrow>
   row_at buffer y = take WIDTH (drop (y * WIDTH) buffer)"
  unfolding row_at_def by (rule map_nth_take_drop) (rule row_fits)

lemma writePng_calls:
  assumes "can_open filename" "write_struct lib" "info_struct lib" "error_at lib = None"
  shows "writePng can_open lib filename buffer =
    \<lparr>diagnostic = [], opened = True,
     emitted = [Png_init_io,
       Png_set_IHDR WIDTH HEIGHT 8 PNG_COLOR_TYPE_RGB PNG_INTERLACE_NONE
         PNG_COMPRESSION_TYPE_DEFAULT PNG_FILTER_TYPE_DEFAULT,
       Png_write_info]
      @ map (\<lambda>y. Png_write_row (row_at buffer y)) [0 ..< HEIGHT] @ [Png_write_end]\<rparr>"
  using assms by (simp add: writePng_def and_then_def png_do_def write_rows_all)

lemma parse_opts_showHelp:
  "showHelp (parse_opts opts s) \<longleftrightarrow>
     showHelp s \<or> (\<exists>c \<in> shortOpt_of ` set opts.
        c \<noteq> of_char (CHR ''n'') \<and> c \<noteq> of_char (CHR ''d'') \<and> c \<noteq> of_char (CHR ''x''))"
  by (induction opts s rule: parse_opts.induct) auto

lemma parse_opts_Complained:
  "Complained line \<in> set opts \<Longrightarrow> showHelp (parse_opts opts s)"
  unfolding parse_opts_showHelp
  by (intro disjI2 bexI [of _ "of_char (CHR ''?'')"]) (simp, force)

lemma quiet_getopt:
  assumes "\<not> showHelp (parse_opts opts s)"
  shows "getopt_cerr opts = []"
proof -
  have "complaint_of r = []" if "r \<in> set opts" for r
  proof (cases r)
    case (Found v arg)
    then show ?thesis by simp
  next
    case (Complained line)
    with that assms show ?thesis using parse_opts_Complained by blast
  qed
  then show ?thesis by (simp add: getopt_cerr_def)
qed

lemma main_help:
  "showHelp (parse_opts opts initial) \<Longrightarrow>
   main e opts = \<lparr>ending = Returned 0, cout = usage (argv_text e), cerr = getopt_cerr opts,
     output_file = None\<rparr>"
  by (simp add: main_def Let_def)

lemma main_short_read:
  assumes "\<not> showHelp (parse_opts opts initial)"
    and "generateFileName (stat_ok e) (local_time e) (directory (parse_opts opts initial))
           (baseName (parse_opts opts initial)) (includeDate (parse_opts opts initial)) = Inr p"
    and "frame_buffer e = Some bytes" "length bytes < WIDTH * HEIGHT * 2"
  shows "main e opts = \<lparr>ending = Returned 1, cout = [],
           cerr = ''Failed to read frame buffer'' @ newline, output_file = None\<rparr>"
  using assms quiet_getopt [OF assms(1)] by (simp add: main_def Let_def)

lemma main_short_no_file:
  assumes "frame_buffer e = Some bytes" "length bytes < WIDTH * HEIGHT * 2"
  shows "output_file (main e opts) = None"
  using assms by (simp add: main_def Let_def split: sum.splits error.splits)

section \<open>The claims\<close>

text \<open>
  Claim C1. For every packed pixel of a snapshot, each 8-bit output channel of the
  conversion is the floor of the source channel value times 255 divided by the largest
  value of that channel, 31 for the 5-bit red and blue channels and 63 for the 6-bit
  green channel. In particular the channel value 0 gives 0 and the largest channel
  value gives 255.
\<close>

theorem convert_channels_rescale:
  assumes "length buffer565 = WIDTH * HEIGHT" and "i < WIDTH * HEIGHT"
  shows
    "uint (RGB888.red (convertRgb565ToRgb888 buffer565 ! i)) =
       \<lfloor>real_of_int (uint (RGB565.red (buffer565 ! i))) * 255 / 31\<rfloor> \<and>
     uint (RGB888.green (convertRgb565ToRgb888 buffer565 ! i)) =
       \<lfloor>real_of_int (uint (RGB565.green (buffer565 ! i))) * 255 / 63\<rfloor> \<and>
     uint (RGB888.blue (convertRgb565ToRgb888 buffer565 ! i)) =
       \<lfloor>real_of_int (uint (RGB565.blue (buffer565 ! i))) * 255 / 31\<rfloor> \<and>
     (RGB565.red (buffer565 ! i) = 0 \<longrightarrow> RGB888.red (convertRgb565ToRgb888 buffer565 ! i) = 0) \<and>
     (RGB565.red (buffer565 ! i) = 31 \<longrightarrow> RGB888.red (convertRgb565ToRgb888 buffer565 ! i) = 255) \<and>
     (RGB565.green (buffer565 ! i) = 0 \<longrightarrow> RGB888.green (convertRgb565ToRgb888 buffer565 ! i) = 0) \<and>
     (RGB565.green (buffer565 ! i) = 63 \<longrightarrow> RGB888.green (convertRgb565ToRgb888 buffer565 ! i) = 255) \<and>
     (RGB565.blue (buffer565 ! i) = 0 \<longrightarrow> RGB888.blue (convertRgb565ToRgb888 buffer565 ! i) = 0) \<and>
     (RGB565.blue (buffer565 ! i) = 31 \<longrightarrow> RGB888.blue (convertRgb565ToRgb888 buffer565 ! i) = 255)"
proof -
  let ?p = "buffer565 ! i"
  have q: "convertRgb565ToRgb888 buffer565 ! i = convert_pixel ?p"
    using assms(2) by (rule convert_nth)
  have r: "uint (RGB888.red (convert_pixel ?p)) = uint (RGB565.red ?p) * 255 div 31"
    by (rule red_conv)
  have g: "uint (RGB888.green (convert_pixel ?p)) = uint (RGB565.green ?p) * 255 div 63"
    by (rule green_conv)
  have b: "uint (RGB888.blue (convert_pixel ?p)) = uint (RGB565.blue ?p) * 255 div 31"
    by (rule blue_conv)
  have r0: "RGB888.red (convert_pixel ?p) = 0" if "RGB565.red ?p = 0"
    using r that by (simp add: uint_0_iff)
  have r1: "RGB888.red (convert_pixel ?p) = 255" if "RGB565.red ?p = 31"
    using r that by (simp add: word_uint_eq_iff)
  have g0: "RGB888.green (convert_pixel ?p) = 0" if "RGB565.green ?p = 0"
    using g that by (simp add: uint_0_iff)
  have g1: "RGB888.green (convert_pixel ?p) = 255" if "RGB565.green ?p = 63"
    using g that by (simp add: word_uint_eq_iff)
  have b0: "RGB888.blue (convert_pixel ?p) = 0" if "RGB565.blue ?p = 0"
    using b that by (simp add: uint_0_iff)
  have b1: "RGB888.blue (convert_pixel ?p) = 255" if "RGB565.blue ?p = 31"
    using b that by (simp add: word_uint_eq_iff)
  have fr: "\<lfloor>real_of_int (uint (RGB565.red ?p)) * 255 / 31\<rfloor> = uint (RGB565.red ?p) * 255 div 31"
    using floor_rescale [of "uint (RGB565.red ?p)" 31] by simp
  have fg: "\<lfloor>real_of_int (uint (RGB565.green ?p)) * 255 / 63\<rfloor> = uint (RGB565.green ?p) * 255 div 63"
    using floor_rescale [of "uint (RGB565.green ?p)" 63] by simp
  have fb: "\<lfloor>real_of_int (uint (RGB565.blue ?p)) * 255 / 31\<rfloor> = uint (RGB565.blue ?p) * 255 div 31"
    using floor_rescale [of "uint (RGB565.blue ?p)" 31] by simp
  show ?thesis
    unfolding q fr fg fb using r g b r0 r1 g0 g1 b0 b1 by blast
qed

theorem convert_channels_rescale_witness:
  "uint (RGB888.red (convertRgb565ToRgb888
      (replicate (WIDTH * HEIGHT) \<lparr>RGB565.blue = 0, green = 63, red = 16\<rparr>) ! 7)) = 131 \<and>
   RGB888.green (convertRgb565ToRgb888
      (replicate (WIDTH * HEIGHT) \<lparr>RGB565.blue = 0, green = 63, red = 16\<rparr>) ! 7) = 255 \<and>
   RGB888.blue (convertRgb565ToRgb888
      (replicate (WIDTH * HEIGHT) \<lparr>RGB565.blue = 0, green = 63, red = 16\<rparr>) ! 7) = 0"
proof -
  have n: "(7::nat) < WIDTH * HEIGHT" by (simp add: WIDTH_def HEIGHT_def)
  show ?thesis
    using n convert_channels_rescale
      [of "replicate (WIDTH * HEIGHT) \<lparr>RGB565.blue = 0, green = 63, red = 16\<rparr>" 7]
    by simp
qed

text \<open>
  Claim C2. A failure of the pipeline should end the program with a diagnostic and a
  status other than 0. The two runs below have a frame buffer that delivers a full
  frame. In the first \<^verbatim>\<open>fopen\<close> cannot open the destination, in the second libpng
  reports an error in its third call. In both, \<^verbatim>\<open>writePng\<close> writes its diagnostic,
  and \<^verbatim>\<open>main\<close> goes on to print that the screenshot was saved and returns 0.
\<close>

theorem failed_write_returns_zero:
  "main \<lparr>stat_ok = (\<lambda>path. False), local_time = date,
         frame_buffer = Some (replicate (WIDTH * HEIGHT * 2) 0), layout = lay,
         fopen_ok = (\<lambda>path. False), png = lib, argv_text = argv\<rparr>
      [Found (of_char (CHR ''x'')) []] =
    \<lparr>ending = Returned 0, cout = ''Screenshot saved as screenshot.png'' @ newline,
     cerr = ''Failed to open file for writing'' @ newline, output_file = None\<rparr> \<and>
   main \<lparr>stat_ok = (\<lambda>path. False), local_time = date,
         frame_buffer = Some (replicate (WIDTH * HEIGHT * 2) 0), layout = lay,
         fopen_ok = (\<lambda>path. True),
         png = \<lparr>write_struct = True, info_struct = True, error_at = Some 2\<rparr>,
         argv_text = argv\<rparr>
      [Found (of_char (CHR ''x'')) []] =
    \<lparr>ending = Returned 0, cout = ''Screenshot saved as screenshot.png'' @ newline,
     cerr = ''Failed to set PNG jump buffer'' @ newline,
     output_file = Some (''screenshot.png'',
       [Png_init_io,
        Png_set_IHDR WIDTH HEIGHT 8 PNG_COLOR_TYPE_RGB PNG_INTERLACE_NONE
          PNG_COMPRESSION_TYPE_DEFAULT PNG_FILTER_TYPE_DEFAULT])\<rparr>"
  by (simp add: main_def Let_def initial_def generateFileName_def name_loop_free fileExists_def
      c_str_def writePng_def and_then_def png_do_def getopt_cerr_def)

text \<open>
  Claim C3, as stated, for every state of the file system: the generator returns a path
  that does not exist. It fails in the directory \<open>crowded\<close>, where every path the
  generator can try exists: the counter reaches the largest \<^verbatim>\<open>int\<close> and its increment
  overflows.
\<close>

theorem generateFileName_crowded:
  "generateFileName crowded [] [] ''shot'' False = Inl Signed_overflow"
proof -
  have "\<forall>j. 0 \<le> j \<and> j < 2147483647 \<longrightarrow> fileExists crowded (c_str (candidate ''shot'' j))"
    by (simp add: c_str_shot fileExists_def crowded_def)
  then have "name_loop crowded (length ''shot'') (candidate ''shot'' 0) (int 0 + 1)
      = Inl Signed_overflow"
    by (intro name_loop_overflow) simp_all
  then show ?thesis
    by (simp add: generateFileName_loop stem_def)
qed

text \<open>
  Claim C3, amended. For every state of the file system in which the first candidate
  or one of the candidates with the disambiguators 1 to 2147483646 does not exist, the
  generator returns a path that does not exist: the first candidate, or on a collision
  the path without its extension, followed by \<open>-N\<close> and the extension, where \<open>N\<close>
  starts at 1 and grows by 1 for every further collision. In particular, when the first
  candidate and those with the disambiguators 1 to 9 exist and the one with 10 does
  not, the generator returns the candidate with the disambiguator 10.
\<close>

theorem generateFileName_fresh:
  assumes st: "st = stem dateStr dir base dated"
    and free: "\<exists>k<2147483647. \<not> fileExists fs (c_str (candidate st k))"
  shows "(\<exists>k<2147483647.
            generateFileName fs dateStr dir base dated = Inr (candidate st k) \<and>
            \<not> fileExists fs (c_str (candidate st k)) \<and>
            (\<forall>j<k. fileExists fs (c_str (candidate st j)))) \<and>
         ((\<forall>j<10. fileExists fs (c_str (candidate st j))) \<and>
            \<not> fileExists fs (c_str (candidate st 10)) \<longrightarrow>
          generateFileName fs dateStr dir base dated = Inr (st @ ''-10.png''))"
proof -
  let ?P = "\<lambda>k. \<not> fileExists fs (c_str (candidate st k))"
  have found: "generateFileName fs dateStr dir base dated = Inr (candidate st k)"
    if "k < 2147483647" "?P k" "\<forall>j<k. fileExists fs (c_str (candidate st j))" for k
    using that name_loop_finds [of 0 k fs st]
    by (simp add: generateFileName_loop st [symmetric])
  obtain k0 where k0: "k0 < 2147483647" "?P k0" using free by blast
  define k where "k = (LEAST k. ?P k)"
  have Pk: "?P k" unfolding k_def using k0(2) by (rule LeastI)
  have "k \<le> k0" unfolding k_def using k0(2) by (rule Least_le)
  with k0(1) have lt: "k < 2147483647" by simp
  have below: "\<forall>j<k. fileExists fs (c_str (candidate st j))"
    unfolding k_def using not_less_Least by blast
  have first: "\<exists>k<2147483647.
            generateFileName fs dateStr dir base dated = Inr (candidate st k) \<and>
            \<not> fileExists fs (c_str (candidate st k)) \<and>
            (\<forall>j<k. fileExists fs (c_str (candidate st j)))"
    using found [OF lt Pk below] lt Pk below by blast
  have ten: "candidate st 10 = st @ ''-10.png''"
    by (simp add: candidate_def digits.simps digit_char_def)
  have second: "generateFileName fs dateStr dir base dated = Inr (st @ ''-10.png'')"
    if "\<forall>j<10. fileExists fs (c_str (candidate st j))" "\<not> fileExists fs (c_str (candidate st 10))"
    using found [of 10] that by (simp add: ten)
  show ?thesis using first second by blast
qed

theorem generateFileName_fresh_witness:
  "generateFileName ten_shots [] [] ''shot'' False = Inr ''shot-10.png''"
proof -
  have st: "''shot'' = stem [] [] ''shot'' False" by (simp add: stem_def)
  have c10: "candidate ''shot'' 10 = ''shot-10.png''"
    by (simp add: candidate_def digits.simps digit_char_def)
  have free10: "\<not> fileExists ten_shots (c_str (candidate ''shot'' 10))"
    by (simp add: c10 c_str_def fileExists_def ten_shots_def)
  then have free: "\<exists>k<2147483647. \<not> fileExists ten_shots (c_str (candidate ''shot'' k))"
    by (intro exI [of _ 10]) simp
  have taken: "\<forall>j<10. fileExists ten_shots (c_str (candidate ''shot'' j))"
  proof (intro allI impI)
    fix j :: nat
    assume "j < 10"
    then have "j \<in> {0, 1, 2, 3, 4, 5, 6, 7, 8, 9}" by (rule below_ten)
    then show "fileExists ten_shots (c_str (candidate ''shot'' j))"
      unfolding c_str_shot
      by (auto simp: candidate_def digits.simps digit_char_def fileExists_def ten_shots_def)
  qed
  show ?thesis
    using generateFileName_fresh [OF st free] taken free10 by simp
qed

text \<open>
  Claim C4. The conversion is monotonic in every channel: for the pixels at any two
  positions of any two snapshots, when a channel of the first is at most that channel
  of the second, the same holds for the converted channels.
\<close>

theorem convert_monotone:
  assumes "length a = WIDTH * HEIGHT" and "length b = WIDTH * HEIGHT"
    and "i < WIDTH * HEIGHT" and "j < WIDTH * HEIGHT"
  shows
    "(RGB565.red (a ! i) \<le> RGB565.red (b ! j) \<longrightarrow>
        RGB888.red (convertRgb565ToRgb888 a ! i) \<le> RGB888.red (convertRgb565ToRgb888 b ! j)) \<and>
     (RGB565.green (a ! i) \<le> RGB565.green (b ! j) \<longrightarrow>
        RGB888.green (convertRgb565ToRgb888 a ! i) \<le> RGB888.green (convertRgb565ToRgb888 b ! j)) \<and>
     (RGB565.blue (a ! i) \<le> RGB565.blue (b ! j) \<longrightarrow>
        RGB888.blue (convertRgb565ToRgb888 a ! i) \<le> RGB888.blue (convertRgb565ToRgb888 b ! j))"
proof -
  have mono: "x * 255 div m \<le> y * 255 div m" if "x \<le> y" "0 < m" for x y m :: int
    using that by (intro zdiv_mono1) simp_all
  have qa: "convertRgb565ToRgb888 a ! i = convert_pixel (a ! i)"
    using assms(3) by (rule convert_nth)
  have qb: "convertRgb565ToRgb888 b ! j = convert_pixel (b ! j)"
    using assms(4) by (rule convert_nth)
  have r: "RGB888.red (convert_pixel (a ! i)) \<le> RGB888.red (convert_pixel (b ! j))"
    if "RGB565.red (a ! i) \<le> RGB565.red (b ! j)"
    using that mono [of "uint (RGB565.red (a ! i))" "uint (RGB565.red (b ! j))" 31]
    unfolding word_le_def red_conv by simp
  have g: "RGB888.green (convert_pixel (a ! i)) \<le> RGB888.green (convert_pixel (b ! j))"
    if "RGB565.green (a ! i) \<le> RGB565.green (b ! j)"
    using that mono [of "uint (RGB565.green (a ! i))" "uint (RGB565.green (b ! j))" 63]
    unfolding word_le_def green_conv by simp
  have bl: "RGB888.blue (convert_pixel (a ! i)) \<le> RGB888.blue (convert_pixel (b ! j))"
    if "RGB565.blue (a ! i) \<le> RGB565.blue (b ! j)"
    using that mono [of "uint (RGB565.blue (a ! i))" "uint (RGB565.blue (b ! j))" 31]
    unfolding word_le_def blue_conv by simp
  show ?thesis
    unfolding qa qb using r g bl by blast
qed

theorem convert_monotone_witness:
  "RGB888.red (convertRgb565ToRgb888
      (replicate (WIDTH * HEIGHT) \<lparr>RGB565.blue = 3, green = 10, red = 7\<rparr>) ! 0)
     \<le> RGB888.red (convertRgb565ToRgb888
      (replicate (WIDTH * HEIGHT) \<lparr>RGB565.blue = 4, green = 10, red = 30\<rparr>) ! 1) \<and>
   RGB888.green (convertRgb565ToRgb888
      (replicate (WIDTH * HEIGHT) \<lparr>RGB565.blue = 3, green = 10, red = 7\<rparr>) ! 0)
     \<le> RGB888.green (convertRgb565ToRgb888
      (replicate (WIDTH * HEIGHT) \<lparr>RGB565.blue = 4, green = 10, red = 30\<rparr>) ! 1) \<and>
   RGB888.blue (convertRgb565ToRgb888
      (replicate (WIDTH * HEIGHT) \<lparr>RGB565.blue = 3, green = 10, red = 7\<rparr>) ! 0)
     \<le> RGB888.blue (convertRgb565ToRgb888
      (replicate (WIDTH * HEIGHT) \<lparr>RGB565.blue = 4, green = 10, red = 30\<rparr>) ! 1)"
proof -
  have n: "(0::nat) < WIDTH * HEIGHT" "(1::nat) < WIDTH * HEIGHT"
    by (simp_all add: WIDTH_def HEIGHT_def)
  show ?thesis
    using n convert_monotone
      [of "replicate (WIDTH * HEIGHT) \<lparr>RGB565.blue = 3, green = 10, red = 7\<rparr>"
          "replicate (WIDTH * HEIGHT) \<lparr>RGB565.blue = 4, green = 10, red = 30\<rparr>" 0 1]
    by simp
qed

text \<open>
  Claim C5. Without the timestamp and without a directory, when no file exists at the
  base name followed by \<^verbatim>\<open>.png\<close>, the generator returns exactly the base name followed
  by \<^verbatim>\<open>.png\<close>, with no directory and no separator before it.
\<close>

theorem generateFileName_plain:
  assumes "\<not> fileExists fs (c_str (base @ ''.png''))"
  shows "generateFileName fs dateStr [] base False = Inr (base @ ''.png'')"
  using assms by (simp add: generateFileName_def Let_def name_loop_free)

theorem generateFileName_plain_witness:
  "generateFileName (\<lambda>path. False) ''2024-07-26-12-00-00'' [] ''shot'' False = Inr ''shot.png''"
  using generateFileName_plain [of "\<lambda>path. False" "''shot''" "''2024-07-26-12-00-00''"]
  by (simp add: fileExists_def)

text \<open>
  Claim C6. When the frame buffer delivers fewer than \<open>WIDTH * HEIGHT * 2\<close> bytes, no
  run opens an output file; and a run that got past the options and has its file name
  stops at the read, with the diagnostic of the failed read on \<^verbatim>\<open>std::cerr\<close> and the
  status 1.
\<close>

theorem short_read_fails:
  assumes "frame_buffer e = Some bytes" and "length bytes < WIDTH * HEIGHT * 2"
  shows "output_file (main e opts) = None \<and>
    (\<not> showHelp (parse_opts opts initial) \<and>
     generateFileName (stat_ok e) (local_time e) (directory (parse_opts opts initial))
       (baseName (parse_opts opts initial)) (includeDate (parse_opts opts initial)) = Inr p
     \<longrightarrow> main e opts = \<lparr>ending = Returned 1, cout = [],
            cerr = ''Failed to read frame buffer'' @ newline, output_file = None\<rparr>)"
  using main_short_no_file [OF assms] main_short_read [OF _ _ assms] by blast

theorem short_read_fails_witness:
  "main some_env [] = \<lparr>ending = Returned 1, cout = [],
      cerr = ''Failed to read frame buffer'' @ newline, output_file = None\<rparr>"
proof -
  have n: "generateFileName (stat_ok some_env) (local_time some_env)
       (directory (parse_opts [] initial)) (baseName (parse_opts [] initial))
       (includeDate (parse_opts [] initial)) = Inr ''screenshot-2024-07-26-12-00-00.png''"
    by (simp add: some_env_def initial_def generateFileName_def Let_def name_loop_free
        fileExists_def c_str_def)
  have h: "\<not> showHelp (parse_opts [] initial)" by (simp add: initial_def)
  have b: "frame_buffer some_env = Some [1, 2, 3]" by (simp add: some_env_def)
  have l: "length [1, 2, 3 :: 8 word] < WIDTH * HEIGHT * 2" by (simp add: WIDTH_def HEIGHT_def)
  show ?thesis
    using short_read_fails [OF b l, of "[]" "''screenshot-2024-07-26-12-00-00.png''"] n h
    by simp
qed

text \<open>
  Claim C7. For every image of \<open>WIDTH * HEIGHT\<close> pixels, when the file opens and libpng
  reports no error, \<^verbatim>\<open>writePng\<close> declares the geometry \<open>WIDTH\<close> by \<open>HEIGHT\<close> with 8 bits
  per channel, RGB without alpha and no interlacing, and then writes exactly \<open>HEIGHT\<close>
  rows, one at a time from the top, row \<open>y\<close> being the \<open>WIDTH\<close> pixels from index
  \<open>y * WIDTH\<close> on.
\<close>

theorem writePng_scanlines:
  assumes "can_open filename" and "write_struct lib" and "info_struct lib"
    and "error_at lib = None" and "length buffer = WIDTH * HEIGHT"
  shows "emitted (writePng can_open lib filename buffer) =
     [Png_init_io,
      Png_set_IHDR WIDTH HEIGHT 8 PNG_COLOR_TYPE_RGB PNG_INTERLACE_NONE
        PNG_COMPRESSION_TYPE_DEFAULT PNG_FILTER_TYPE_DEFAULT,
      Png_write_info]
     @ map (\<lambda>y. Png_write_row (take WIDTH (drop (y * WIDTH) buffer))) [0 ..< HEIGHT]
     @ [Png_write_end]"
proof -
  have "map (\<lambda>y. Png_write_row (row_at buffer y)) [0 ..< HEIGHT] =
        map (\<lambda>y. Png_write_row (take WIDTH (drop (y * WIDTH) buffer))) [0 ..< HEIGHT]"
    using assms(5) by (intro map_cong) (simp_all add: row_at_take_drop)
  then show ?thesis
    using writePng_calls [of can_open filename lib buffer] assms(1-4) by simp
qed

theorem writePng_scanlines_witness:
  "emitted (writePng (\<lambda>path. True) working_png ''shot.png'' (replicate (WIDTH * HEIGHT) black)) =
     [Png_init_io,
      Png_set_IHDR WIDTH HEIGHT 8 PNG_COLOR_TYPE_RGB PNG_INTERLACE_NONE
        PNG_COMPRESSION_TYPE_DEFAULT PNG_FILTER_TYPE_DEFAULT,
      Png_write_info]
     @ map (\<lambda>y. Png_write_row
          (take WIDTH (drop (y * WIDTH) (replicate (WIDTH * HEIGHT) black)))) [0 ..< HEIGHT]
     @ [Png_write_end]"
  using writePng_scanlines
    [of "\<lambda>path. True" "''shot.png''" working_png "replicate (WIDTH * HEIGHT) black"]
  by (simp add: working_png_def)




text \<open>
  Claim C10, as stated: with an unrecognised option the program behaves exactly as for
  a request for help. The run with the option \<^verbatim>\<open>-z\<close> has the line of \<^verbatim>\<open>getopt_long\<close>
  on the error stream, the run with \<^verbatim>\<open>-h\<close> has nothing there.
\<close>

theorem unrecognized_option_complains:
  "cerr (main some_env [Complained invalid_option_z]) = invalid_option_z \<and>
   cerr (main some_env [Found (of_char (CHR ''h'')) []]) = [] \<and>
   main some_env [Complained invalid_option_z] \<noteq> main some_env [Found (of_char (CHR ''h'')) []]"
proof -
  have a: "cerr (main some_env [Complained invalid_option_z]) = invalid_option_z"
    by (simp add: main_def Let_def getopt_cerr_def)
  have b: "cerr (main some_env [Found (of_char (CHR ''h'')) []]) = []"
    by (simp add: main_def Let_def getopt_cerr_def)
  have "invalid_option_z \<noteq> []" by (simp add: invalid_option_z_def)
  with a b have "main some_env [Complained invalid_option_z]
      \<noteq> main some_env [Found (of_char (CHR ''h'')) []]"
    by metis
  with a b show ?thesis by blast
qed

text \<open>
  Claim C10, amended. When \<^verbatim>\<open>getopt_long\<close> reports an option it does not recognise,
  the program prints the usage text on the output stream and returns 0, as for a
  request for help, and no run of it opens an output file, whatever the file system,
  the frame buffer and libpng are. The error stream holds the lines \<^verbatim>\<open>getopt_long\<close>
  wrote, among them the one for that option.
\<close>

theorem unrecognized_option_shows_usage:
  assumes "Complained line \<in> set opts"
  shows "main e opts =
      \<lparr>ending = Returned 0,
       cout = ''Usage: '' @ argv_text e @ '' [options]'' @ [CHR 0x0A]
         @ ''Options:'' @ [CHR 0x0A]
         @ ''  -n, --name      Base name for the screenshot file (default: screenshot)''
         @ [CHR 0x0A]
         @ ''  -d, --directory Directory to save the screenshot (default: current directory)''
         @ [CHR 0x0A]
         @ ''  -x, --no-date   Do not include the date in the filename'' @ [CHR 0x0A]
         @ ''  -h, --help      Show this help message'' @ [CHR 0x0A],
       cerr = concat (map (\<lambda>r. case r of Found v arg \<Rightarrow> [] | Complained l \<Rightarrow> l) opts),
       output_file = None\<rparr> \<and>
    ending (main e opts) = ending (main e [Found (of_char (CHR ''h'')) []]) \<and>
    cout (main e opts) = cout (main e [Found (of_char (CHR ''h'')) []]) \<and>
    output_file (main e opts) = output_file (main e [Found (of_char (CHR ''h'')) []]) \<and>
    (\<exists>before after. cerr (main e opts) = before @ line @ after)"
proof -
  have c: "complaint_of = (\<lambda>r. case r of Found v arg \<Rightarrow> [] | Complained l \<Rightarrow> l)"
    by (rule ext) (simp split: getopt_result.splits)
  have m: "main e opts = \<lparr>ending = Returned 0, cout = usage (argv_text e),
      cerr = getopt_cerr opts, output_file = None\<rparr>"
    using assms by (intro main_help parse_opts_Complained)
  have h: "main e [Found (of_char (CHR ''h'')) []] = \<lparr>ending = Returned 0,
      cout = usage (argv_text e), cerr = [], output_file = None\<rparr>"
    by (simp add: main_help getopt_cerr_def)
  obtain xs ys where "opts = xs @ Complained line # ys"
    using assms by (auto simp: in_set_conv_decomp)
  then have "getopt_cerr opts = getopt_cerr xs @ line @ getopt_cerr ys"
    by (simp add: getopt_cerr_def)
  then have s: "\<exists>before after. cerr (main e opts) = before @ line @ after"
    unfolding m by auto
  show ?thesis
    using s unfolding m h by (simp add: usage_def newline_def getopt_cerr_def c)
qed

theorem unrecognized_option_shows_usage_witness:
  "ending (main (some_env\<lparr>stat_ok := crowded, frame_buffer := None\<rparr>)
      [Found (of_char (CHR ''n'')) ''shot'', Complained invalid_option_z]) = Returned 0 \<and>
   cerr (main (some_env\<lparr>stat_ok := crowded, frame_buffer := None\<rparr>)
      [Found (of_char (CHR ''n'')) ''shot'', Complained invalid_option_z]) = invalid_option_z \<and>
   output_file (main (some_env\<lparr>stat_ok := crowded, frame_buffer := None\<rparr>)
      [Found (of_char (CHR ''n'')) ''shot'', Complained invalid_option_z]) = None"
  using unrecognized_option_shows_usage
    [of invalid_option_z "[Found (of_char (CHR ''n'')) ''shot'', Complained invalid_option_z]"
        "some_env\<lparr>stat_ok := crowded, frame_buffer := None\<rparr>"]
  by simp

end
